theory Spec2Isabelle
  imports Complex_Main
begin

section \<open>Data model of SimPEG/Mesh/TensorMesh.py\<close>

text \<open>
  Python floats and numpy float arrays are modelled as \<^typ>\<open>real\<close> and
  \<^typ>\<open>real list\<close>: the arithmetic is the exact one, rounding is not modelled.
  Every \<^verbatim>\<open>raise\<close>, failed \<^verbatim>\<open>assert\<close> and failing numpy call
  is a value of \<open>py_error\<close>, returned as \<open>Inl\<close>.
\<close>

datatype py_error =
    AssertionError
  | Exception
  | UnboundLocalError
  | NotImplementedError
  | IndexError
  | ValueError
  | ZeroDivisionError
  | AttributeError
  | KeyError

text \<open>
  A mesh object: the class attribute \<^verbatim>\<open>_meshType\<close>, the width arrays
  \<^verbatim>\<open>self._h\<close> and the origin \<^verbatim>\<open>self.x0\<close>. The constructor
  establishes \<open>length self_x0 = length self_h\<close> and \<open>length self_h \<in> {1, 2, 3}\<close>.
\<close>

record mesh =
  self_meshType :: string
  self_h :: "real list list"
  self_x0 :: "real list"

text \<open>
  Modelled from the spec: \<^verbatim>\<open>BaseRectangularMesh\<close> is not part of the sources.
  It is built from \<^verbatim>\<open>[x.size for x in h]\<close> and \<^verbatim>\<open>x0\<close>; the dimension
  is the number of axes, \<^verbatim>\<open>nC_i = len(h_i)\<close>, and \<^verbatim>\<open>nC\<close> is the number
  of cells of the whole mesh.
\<close>

definition dim :: "mesh \<Rightarrow> nat" where
  "dim m = length (self_h m)"

definition vnC :: "mesh \<Rightarrow> nat list" where
  "vnC m = map length (self_h m)"

definition nC :: "mesh \<Rightarrow> nat" where
  "nC m = prod_list (vnC m)"

subsection \<open>Width and coordinate vectors\<close>

















subsection \<open>Results and errors\<close>

definition py_bind :: "py_error + 'a \<Rightarrow> ('a \<Rightarrow> py_error + 'b) \<Rightarrow> py_error + 'b" where
  "py_bind r f = (case r of Inl e \<Rightarrow> Inl e | Inr v \<Rightarrow> f v)"

subsection \<open>The constructor\<close>

text \<open>
  One entry of \<^verbatim>\<open>h_in\<close>: a scalar (a cell count), a Python list in the
  mini-language of \<^verbatim>\<open>Utils.meshTensor\<close>, a one-dimensional numpy array, a numpy
  array of another rank, or a value of any other type.
\<close>

datatype 'a h_spec = HScalar real | HList 'a | HArray "real list" | HArrayND | HOther

text \<open>One entry of \<^verbatim>\<open>x0_in\<close>: a number or a string.\<close>

datatype x0_spec = Num real | Sym string

text \<open>\<^verbatim>\<open>int(x)\<close> truncates towards zero.\<close>

definition py_int :: "real \<Rightarrow> int" where
  "py_int r = (if 0 \<le> r then \<lfloor>r\<rfloor> else \<lceil>r\<rceil>)"

text \<open>
  The body of the loop over \<^verbatim>\<open>h_in\<close>. \<^verbatim>\<open>Utils.meshTensor\<close> is not
  part of the sources and is a parameter. \<^verbatim>\<open>np.ones(n)\<close> raises ValueError for a
  negative \<open>n\<close>; \<^verbatim>\<open>_unitDimensions[i]\<close> is 1 on every axis.
\<close>

definition resolve_h :: "('a \<Rightarrow> py_error + real list) \<Rightarrow> 'a h_spec \<Rightarrow> py_error + real list" where
  "resolve_h meshTensor h_i =
     (case h_i of
        HScalar r \<Rightarrow>
          (let n = py_int r in
           if n < 0 then Inl ValueError
           else Inr (map (\<lambda>one. 1 * one / real_of_int n) (replicate (nat n) 1)))
      | HList l \<Rightarrow> meshTensor l
      | HArray a \<Rightarrow> Inr a
      | HArrayND \<Rightarrow> Inl AssertionError
      | HOther \<Rightarrow> Inl AssertionError)"

fun init_h :: "('a \<Rightarrow> py_error + real list) \<Rightarrow> 'a h_spec list \<Rightarrow> py_error + real list list" where
  "init_h meshTensor [] = Inr []"
| "init_h meshTensor (h_i # rest) =
     py_bind (resolve_h meshTensor h_i) (\<lambda>a.
     py_bind (init_h meshTensor rest) (\<lambda>as. Inr (a # as)))"

text \<open>The body of the loop over \<^verbatim>\<open>x0_in\<close>.\<close>

definition resolve_x0 :: "x0_spec \<Rightarrow> real list \<Rightarrow> py_error + real" where
  "resolve_x0 x_i h_i =
     (case x_i of
        Num r \<Rightarrow> Inr r
      | Sym s \<Rightarrow>
          if s = ''0'' then Inr 0.0
          else if s = ''C'' then Inr (- sum_list h_i * 0.5)
          else if s = ''N'' then Inr (- sum_list h_i)
          else Inl Exception)"

fun init_x0 :: "x0_spec list \<Rightarrow> real list list \<Rightarrow> py_error + real list" where
  "init_x0 (x_i # xs) (h_i # hs) =
     py_bind (resolve_x0 x_i h_i) (\<lambda>v.
     py_bind (init_x0 xs hs) (\<lambda>vs. Inr (v # vs)))"
| "init_x0 xs hs = Inr []"

text \<open>
  \<^verbatim>\<open>BaseTensorMesh.__init__\<close>; \<open>cls\<close> is the \<^verbatim>\<open>_meshType\<close> of the
  class that is instantiated. \<^verbatim>\<open>h_in\<close> is a Python list, so the first assertion
  holds.
\<close>

definition BaseTensorMesh_init ::
  "string \<Rightarrow> ('a \<Rightarrow> py_error + real list) \<Rightarrow> 'a h_spec list \<Rightarrow> x0_spec list option
     \<Rightarrow> py_error + mesh" where
  "BaseTensorMesh_init cls meshTensor h_in x0_in =
     (if length h_in \<notin> set [1, 2, 3] then Inl AssertionError
      else
        py_bind (init_h meshTensor h_in) (\<lambda>h.
        py_bind (case x0_in of
                   None \<Rightarrow> Inr (replicate (length h) 0)
                 | Some xs \<Rightarrow>
                     if length h \<noteq> length xs then Inl AssertionError
                     else init_x0 xs h) (\<lambda>x0.
        Inr \<lparr>self_meshType = cls, self_h = h, self_x0 = x0\<rparr>)))"

definition TensorMesh_init ::
  "('a \<Rightarrow> py_error + real list) \<Rightarrow> 'a h_spec list \<Rightarrow> x0_spec list option \<Rightarrow> py_error + mesh" where
  "TensorMesh_init meshTensor h_in x0 = BaseTensorMesh_init ''TENSOR'' meshTensor h_in x0"

subsection \<open>getTensor\<close>





subsection \<open>isInside\<close>






subsection \<open>Cell volumes\<close>

text \<open>\<^verbatim>\<open>np.outer(a, b)\<close>, as the list of its rows.\<close>

definition outer :: "real list \<Rightarrow> real list \<Rightarrow> real list list" where
  "outer a b = map (\<lambda>x. map (\<lambda>y. x * y) b) a"

text \<open>
  Modelled from the spec: \<^verbatim>\<open>Utils.mkvc\<close> is not part of the sources. It flattens
  an array with the first axis varying fastest; a one-dimensional array is unchanged.
\<close>

definition mkvc :: "real list list \<Rightarrow> real list" where
  "mkvc M = concat (map (\<lambda>j. map (\<lambda>r. r ! j) M)
                        [0..<(if M = [] then 0 else length (hd M))])"

text \<open>
  \<^verbatim>\<open>TensorMesh.vol\<close>. The attribute \<^verbatim>\<open>_vol\<close> caches the value; the mesh
  does not change after construction, so the property is a function of the mesh. With a
  dimension other than 1, 2, 3 no branch assigns \<^verbatim>\<open>_vol\<close>.
\<close>

definition vol :: "mesh \<Rightarrow> py_error + real list" where
  "vol m =
     (let vh = self_h m in
      if dim m = 1 then Inr (vh ! 0)
      else if dim m = 2 then Inr (mkvc (outer (vh ! 0) (vh ! 1)))
      else if dim m = 3 then Inr (mkvc (outer (mkvc (outer (vh ! 0) (vh ! 1))) (vh ! 2)))
      else Inl AttributeError)"

subsection \<open>Sparse operators\<close>

text \<open>
  A scipy sparse matrix: its shape and its entries. Only the entries inside the shape
  are meaningful. The storage format (\<^verbatim>\<open>tocsr\<close>) is not modelled.
\<close>

datatype matrix = Matrix (nrows: nat) (ncols: nat) (entry: "nat \<Rightarrow> nat \<Rightarrow> real")








subsection \<open>getInterpolationMat\<close>








subsection \<open>Operator algebra\<close>

text \<open>
  The operations of scipy.sparse the assembler uses. A product of operands whose shapes
  do not agree raises ValueError.
\<close>

definition transpose_mat :: "matrix \<Rightarrow> matrix" where
  "transpose_mat A = Matrix (ncols A) (nrows A) (\<lambda>i j. entry A j i)"

definition smul :: "real \<Rightarrow> matrix \<Rightarrow> matrix" where
  "smul c A = Matrix (nrows A) (ncols A) (\<lambda>i j. c * entry A i j)"

definition matvec :: "matrix \<Rightarrow> real list \<Rightarrow> py_error + real list" where
  "matvec A x =
     (if ncols A \<noteq> length x then Inl ValueError
      else Inr (map (\<lambda>i. \<Sum>k < ncols A. entry A i k * x ! k) [0..<nrows A]))"

definition matmul :: "matrix \<Rightarrow> matrix \<Rightarrow> py_error + matrix" where
  "matmul A B =
     (if ncols A \<noteq> nrows B then Inl ValueError
      else Inr (Matrix (nrows A) (ncols B) (\<lambda>i j. \<Sum>k < ncols A. entry A i k * entry B k j)))"

definition identity :: "nat \<Rightarrow> matrix" where
  "identity n = Matrix n n (\<lambda>i j. if i = j then 1 else 0)"

definition kron :: "matrix \<Rightarrow> matrix \<Rightarrow> matrix" where
  "kron A B = Matrix (nrows A * nrows B) (ncols A * ncols B)
     (\<lambda>i j. entry A (i div nrows B) (j div ncols B) * entry B (i mod nrows B) (j mod ncols B))"

text \<open>
  Modelled from the spec: \<^verbatim>\<open>Utils.sdiag\<close> and \<^verbatim>\<open>Utils.sdInv\<close> are not part
  of the sources. The first is the diagonal operator of a vector, the second the
  reciprocal of a diagonal operator entry by entry. At a zero diagonal entry numpy gives
  \<^verbatim>\<open>inf\<close>, which \<^typ>\<open>real\<close> does not have: the theorem on the inverted
  operator assumes a diagonal without zero.
\<close>

definition sdiag :: "real list \<Rightarrow> matrix" where
  "sdiag d = Matrix (length d) (length d) (\<lambda>i j. if i = j \<and> i < length d then d ! i else 0)"

definition sdInv :: "matrix \<Rightarrow> matrix" where
  "sdInv M = sdiag (map (\<lambda>i. 1 / entry M i i) [0..<nrows M])"

text \<open>
  \<^verbatim>\<open>sp.csr_matrix((np.ones(nC), (range(nC), np.zeros(nC))), shape=(nC,1))\<close>:
  a column of ones.
\<close>

definition ones_column :: "nat \<Rightarrow> matrix" where
  "ones_column n = Matrix n 1 (\<lambda>i j. if i < n \<and> j = 0 then 1 else 0)"

subsection \<open>The fast inner product\<close>

text \<open>
  A material property that is not \<^verbatim>\<open>None\<close>. Modelled from the spec:
  \<^verbatim>\<open>Utils.isScalar\<close> is not part of the sources; a property is a scalar or a
  vector, and \<^verbatim>\<open>isScalar\<close> holds of the scalars.
\<close>

datatype property = Scalar real | Array "real list"

definition isScalar :: "property \<Rightarrow> bool" where
  "isScalar p = (case p of Scalar s \<Rightarrow> True | Array a \<Rightarrow> False)"

text \<open>
  \<^verbatim>\<open>1./prop\<close>. On a Python float zero this raises ZeroDivisionError. On an array
  numpy gives \<^verbatim>\<open>inf\<close> at a zero entry, which has no counterpart in
  \<^typ>\<open>real\<close>: the theorems on values assume that no entry is zero.
\<close>

definition reciprocal :: "property \<Rightarrow> py_error + property" where
  "reciprocal p =
     (case p of
        Scalar s \<Rightarrow> if s = 0 then Inl ZeroDivisionError else Inr (Scalar (1 / s))
      | Array a \<Rightarrow> Inr (Array (map (\<lambda>x. 1 / x) a)))"

text \<open>
  \<^verbatim>\<open>getattr(self, name)\<close> for the averaging operators, which the mesh inherits from
  \<^verbatim>\<open>DiffOperators\<close> (not part of the sources): \<open>attrs\<close> maps an attribute name to
  its operator.
\<close>

definition getattr :: "(string \<Rightarrow> matrix option) \<Rightarrow> string \<Rightarrow> py_error + matrix" where
  "getattr attrs name = (case attrs name of None \<Rightarrow> Inl AttributeError | Some A \<Rightarrow> Inr A)"

text \<open>
  Lines 313 to 327 of \<^verbatim>\<open>_fastInnerProduct\<close>: the assembly from the resolved
  property vector. \<^verbatim>\<open>self.vol\<close> and the property have \<^verbatim>\<open>nC\<close> entries in
  the first branch.
\<close>

definition assemble_resolved ::
  "(string \<Rightarrow> matrix option) \<Rightarrow> mesh \<Rightarrow> string \<Rightarrow> real list \<Rightarrow> bool
     \<Rightarrow> py_error + matrix option" where
  "assemble_resolved attrs m AvType prop invMat =
     py_bind
       (if length prop = nC m then
          py_bind (getattr attrs (''ave'' @ AvType @ ''2CC'')) (\<lambda>Av.
          py_bind (vol m) (\<lambda>v.
          let Vprop = map2 (*) v prop in
          py_bind (matvec (transpose_mat Av) Vprop) (\<lambda>d.
            Inr (Some (smul (real (dim m)) (sdiag d))))))
        else if length prop = nC m * dim m then
          py_bind (getattr attrs (''ave'' @ AvType @ ''2CCV'')) (\<lambda>Av.
          py_bind (vol m) (\<lambda>v.
          let V = kron (identity (dim m)) (sdiag v) in
          py_bind (matmul (transpose_mat Av) V) (\<lambda>AvTV.
          py_bind (matvec AvTV prop) (\<lambda>d.
            Inr (Some (sdiag d))))))
        else Inr None)
       (\<lambda>M. case M of
               None \<Rightarrow> Inr None
             | Some M \<Rightarrow> if invMat then Inr (Some (sdInv M)) else Inr (Some M))"

text \<open>\<^verbatim>\<open>_fastInnerProduct\<close>: lines 304 to 311 resolve the property.\<close>

definition fastInnerProduct ::
  "(string \<Rightarrow> matrix option) \<Rightarrow> mesh \<Rightarrow> string \<Rightarrow> property option \<Rightarrow> bool \<Rightarrow> bool
     \<Rightarrow> py_error + matrix option" where
  "fastInnerProduct attrs m AvType prop invProp invMat =
     (let prop = (case prop of None \<Rightarrow> Array (replicate (nC m) 1) | Some p \<Rightarrow> p) in
      py_bind (if invProp then reciprocal prop else Inr prop) (\<lambda>prop.
      let prop = (if isScalar prop
                  then (case prop of Scalar s \<Rightarrow> map (\<lambda>one. s * one) (replicate (nC m) 1)
                        | Array a \<Rightarrow> a)
                  else (case prop of Scalar s \<Rightarrow> [s] | Array a \<Rightarrow> a))
      in assemble_resolved attrs m AvType prop invMat))"

text \<open>
  \<^verbatim>\<open>a * b * c\<close> associates to the left; \<^verbatim>\<open>Utils.sdiag(v) * self.dim\<close> and
  \<^verbatim>\<open>self.dim * Av.T\<close> scale an operator. A function body that ends without a
  \<^verbatim>\<open>return\<close> returns \<^verbatim>\<open>None\<close>.
\<close>

definition fastInnerProductDeriv ::
  "(string \<Rightarrow> matrix option) \<Rightarrow> mesh \<Rightarrow> string \<Rightarrow> property option \<Rightarrow> real list option
     \<Rightarrow> py_error + matrix option" where
  "fastInnerProductDeriv attrs m AvType prop v =
     (case prop of
        None \<Rightarrow> Inr None
      | Some prop \<Rightarrow>
          if isScalar prop then
            py_bind (getattr attrs (''ave'' @ AvType @ ''2CC'')) (\<lambda>Av.
            py_bind (vol m) (\<lambda>vl.
            let V = sdiag vl; ones = ones_column (nC m) in
            case v of
              None \<Rightarrow>
                py_bind (matmul (smul (real (dim m)) (transpose_mat Av)) V) (\<lambda>A.
                py_bind (matmul A ones) (\<lambda>D. Inr (Some D)))
            | Some v \<Rightarrow>
                py_bind (matmul (smul (real (dim m)) (sdiag v)) (transpose_mat Av)) (\<lambda>A.
                py_bind (matmul A V) (\<lambda>B.
                py_bind (matmul B ones) (\<lambda>D. Inr (Some D))))))
          else
            (let size = (case prop of Scalar s \<Rightarrow> 1 | Array a \<Rightarrow> length a) in
             if size = nC m then
               py_bind (getattr attrs (''ave'' @ AvType @ ''2CC'')) (\<lambda>Av.
               py_bind (vol m) (\<lambda>vl.
               let V = sdiag vl in
               case v of
                 None \<Rightarrow>
                   py_bind (matmul (smul (real (dim m)) (transpose_mat Av)) V) (\<lambda>D. Inr (Some D))
               | Some v \<Rightarrow>
                   py_bind (matmul (smul (real (dim m)) (sdiag v)) (transpose_mat Av)) (\<lambda>A.
                   py_bind (matmul A V) (\<lambda>D. Inr (Some D)))))
             else if size = nC m * dim m then
               py_bind (getattr attrs (''ave'' @ AvType @ ''2CCV'')) (\<lambda>Av.
               py_bind (vol m) (\<lambda>vl.
               let V = kron (identity (dim m)) (sdiag vl) in
               case v of
                 None \<Rightarrow> py_bind (matmul (transpose_mat Av) V) (\<lambda>D. Inr (Some D))
               | Some v \<Rightarrow>
                   py_bind (matmul (sdiag v) (transpose_mat Av)) (\<lambda>A.
                   py_bind (matmul A V) (\<lambda>D. Inr (Some D)))))
             else Inr None))"

text \<open>
  The resolved property in the specification's words: \<^verbatim>\<open>None\<close> becomes
  \<^verbatim>\<open>ones(nC)\<close>, a scalar becomes \<^verbatim>\<open>scalar*ones(nC)\<close>, and with
  invertProperty the element-wise reciprocal is taken.
\<close>

definition resolved_property :: "mesh \<Rightarrow> property option \<Rightarrow> bool \<Rightarrow> real list" where
  "resolved_property m prop invProp =
     (let r = (case prop of
                 None \<Rightarrow> replicate (nC m) 1
               | Some (Scalar s) \<Rightarrow> replicate (nC m) s
               | Some (Array a) \<Rightarrow> a)
      in if invProp then map (\<lambda>x. 1 / x) r else r)"




section \<open>Node vectors\<close>













section \<open>Cell volumes\<close>









section \<open>The selector table\<close>












section \<open>The constructor\<close>

lemma init_x0_length:
  "length xs = length hs \<Longrightarrow> init_x0 xs hs = Inr vs \<Longrightarrow> length vs = length hs"
proof (induction xs hs arbitrary: vs rule: list_induct2')
  case (4 x xs h hs)
  then show ?case
    by (auto simp: py_bind_def split: sum.splits)
qed simp_all

lemma init_x0_ok:
  assumes "length xs = length hs"
    and "\<forall>i < length hs. \<exists>v. resolve_x0 (xs ! i) (hs ! i) = Inr v"
  shows "\<exists>vs. init_x0 xs hs = Inr vs \<and> length vs = length hs \<and>
           (\<forall>i < length hs. resolve_x0 (xs ! i) (hs ! i) = Inr (vs ! i))"
  using assms
proof (induction xs hs rule: list_induct2')
  case (4 x xs h hs)
  from "4.prems"(2) have "\<exists>v. resolve_x0 x h = Inr v" by auto
  then obtain v where v: "resolve_x0 x h = Inr v" by blast
  from "4.prems" have "length xs = length hs"
    and "\<forall>i < length hs. \<exists>v. resolve_x0 (xs ! i) (hs ! i) = Inr v"
    by auto
  from "4.IH" [OF this] obtain vs where vs: "init_x0 xs hs = Inr vs" "length vs = length hs"
    "\<forall>i < length hs. resolve_x0 (xs ! i) (hs ! i) = Inr (vs ! i)" by blast
  have "init_x0 (x # xs) (h # hs) = Inr (v # vs)"
    by (simp add: v vs py_bind_def)
  moreover have "\<forall>i < length (h # hs). resolve_x0 ((x # xs) ! i) ((h # hs) ! i) = Inr ((v # vs) ! i)"
    using v vs(3) by (auto simp: nth_Cons split: nat.splits)
  ultimately show ?case using vs(2) by simp
qed simp_all

lemma init_x0_error:
  assumes "length xs = length hs"
    and "i < length hs" and "resolve_x0 (xs ! i) (hs ! i) = Inl e"
    and "\<forall>j < length hs. resolve_x0 (xs ! j) (hs ! j) \<in> {Inl e} \<union> range Inr"
  shows "init_x0 xs hs = Inl e"
  using assms
proof (induction xs hs arbitrary: i rule: list_induct2')
  case (4 x xs h hs)
  show ?case
  proof (cases "resolve_x0 x h")
    case (Inl e')
    with "4.prems"(4) have "e' = e" by fastforce
    with Inl show ?thesis by (simp add: py_bind_def)
  next
    case (Inr v)
    with "4.prems"(3) obtain i' where i': "i = Suc i'" by (cases i) auto
    from "4.prems" i' have "length xs = length hs" "i' < length hs"
      "resolve_x0 (xs ! i') (hs ! i') = Inl e"
      "\<forall>j < length hs. resolve_x0 (xs ! j) (hs ! j) \<in> {Inl e} \<union> range Inr"
      by auto
    from "4.IH" [OF this] Inr show ?thesis by (simp add: py_bind_def)
  qed
qed simp_all

lemma resolve_x0_cases:
  "resolve_x0 x h = Inl e \<Longrightarrow> e = Exception"
  by (auto simp: resolve_x0_def split: x0_spec.splits if_splits)

lemma init_h_length: "init_h mt h_in = Inr hs \<Longrightarrow> length hs = length h_in"
  by (induction h_in arbitrary: hs) (auto simp: py_bind_def split: sum.splits)

lemma resolve_x0_Inr_iff:
  "(\<exists>v. resolve_x0 x w = Inr v) \<longleftrightarrow> \<not> (\<exists>s. x = Sym s \<and> s \<notin> {''0'', ''C'', ''N''})"
  by (cases x) (auto simp: resolve_x0_def)

lemma resolve_x0_value:
  "resolve_x0 x w = Inr v \<Longrightarrow>
     v = (case x of Num r \<Rightarrow> r
          | Sym s \<Rightarrow> if s = ''0'' then 0 else if s = ''C'' then - sum_list w / 2 else - sum_list w)"
  by (cases x) (auto simp: resolve_x0_def split: if_splits)

lemma init_x0_fails:
  assumes "length xs = length hs" and "i < length hs"
    and "\<nexists>v. resolve_x0 (xs ! i) (hs ! i) = Inr v"
  shows "init_x0 xs hs = Inl Exception"
proof -
  from assms(3) obtain e where "resolve_x0 (xs ! i) (hs ! i) = Inl e"
    by (cases "resolve_x0 (xs ! i) (hs ! i)") auto
  with resolve_x0_cases have e: "resolve_x0 (xs ! i) (hs ! i) = Inl Exception" by blast
  have "\<forall>j < length hs. resolve_x0 (xs ! j) (hs ! j) \<in> {Inl Exception} \<union> range Inr"
  proof (intro allI impI)
    fix j
    show "resolve_x0 (xs ! j) (hs ! j) \<in> {Inl Exception} \<union> range Inr"
      by (cases "resolve_x0 (xs ! j) (hs ! j)") (auto dest: resolve_x0_cases)
  qed
  from init_x0_error [OF assms(1,2) e this] show ?thesis .
qed

text \<open>
  C8. When the width specifications resolve (to \<open>hs\<close>): with \<^verbatim>\<open>x0_in\<close> omitted
  the origin is the zero vector; with an \<^verbatim>\<open>x0_in\<close> of the right length the
  construction raises as soon as one entry is a symbol other than '0', 'C', 'N' and no mesh
  is returned; otherwise entry \<open>i\<close> of the origin is the number given, 0 for '0',
  \<open>-sum(widths)/2\<close> for 'C' and \<open>-sum(widths)\<close> for 'N'.
\<close>

theorem origin_resolution:
  assumes "length h_in \<in> {1, 2, 3}" and "init_h meshTensor h_in = Inr hs"
  shows "(\<exists>m. BaseTensorMesh_init cls meshTensor h_in None = Inr m \<and> self_h m = hs \<and>
              self_x0 m = replicate (length hs) 0) \<and>
         (\<forall>xs. length xs = length hs \<longrightarrow>
            (if \<exists>i < length hs. \<exists>s. xs ! i = Sym s \<and> s \<notin> {''0'', ''C'', ''N''}
             then BaseTensorMesh_init cls meshTensor h_in (Some xs) = Inl Exception
             else \<exists>m. BaseTensorMesh_init cls meshTensor h_in (Some xs) = Inr m \<and>
                    self_h m = hs \<and> length (self_x0 m) = length hs \<and>
                    (\<forall>i < length hs. self_x0 m ! i =
                       (case xs ! i of
                          Num r \<Rightarrow> r
                        | Sym s \<Rightarrow> if s = ''0'' then 0
                                   else if s = ''C'' then - sum_list (hs ! i) / 2
                                   else - sum_list (hs ! i)))))"
proof (intro conjI allI impI)
  from assms show "\<exists>m. BaseTensorMesh_init cls meshTensor h_in None = Inr m \<and> self_h m = hs \<and>
              self_x0 m = replicate (length hs) 0"
    by (auto simp: BaseTensorMesh_init_def py_bind_def)
next
  fix xs :: "x0_spec list"
  assume len: "length xs = length hs"
  let ?bad = "\<exists>i < length hs. \<exists>s. xs ! i = Sym s \<and> s \<notin> {''0'', ''C'', ''N''}"
  from assms have guard: "\<not> length h_in \<notin> set [1, 2, 3]" by auto
  have unfold: "BaseTensorMesh_init cls meshTensor h_in (Some xs) =
      py_bind (init_x0 xs hs) (\<lambda>x0. Inr \<lparr>self_meshType = cls, self_h = hs, self_x0 = x0\<rparr>)"
    unfolding BaseTensorMesh_init_def using guard assms(2) len
    by (simp add: py_bind_def)
  show "if ?bad
        then BaseTensorMesh_init cls meshTensor h_in (Some xs) = Inl Exception
        else \<exists>m. BaseTensorMesh_init cls meshTensor h_in (Some xs) = Inr m \<and>
                    self_h m = hs \<and> length (self_x0 m) = length hs \<and>
                    (\<forall>i < length hs. self_x0 m ! i =
                       (case xs ! i of
                          Num r \<Rightarrow> r
                        | Sym s \<Rightarrow> if s = ''0'' then 0
                                   else if s = ''C'' then - sum_list (hs ! i) / 2
                                   else - sum_list (hs ! i)))"
  proof (cases ?bad)
    case True
    then obtain i where i: "i < length hs" "\<exists>s. xs ! i = Sym s \<and> s \<notin> {''0'', ''C'', ''N''}"
      by blast
    then have "\<nexists>v. resolve_x0 (xs ! i) (hs ! i) = Inr v"
      by (simp only: resolve_x0_Inr_iff) blast
    from init_x0_fails [OF len i(1) this] have "init_x0 xs hs = Inl Exception" .
    with True unfold show ?thesis by (simp add: py_bind_def)
  next
    case False
    then have "\<forall>i < length hs. \<exists>v. resolve_x0 (xs ! i) (hs ! i) = Inr v"
      by (simp only: resolve_x0_Inr_iff) blast
    from init_x0_ok [OF len this] obtain vs where vs: "init_x0 xs hs = Inr vs"
      "length vs = length hs" "\<forall>i < length hs. resolve_x0 (xs ! i) (hs ! i) = Inr (vs ! i)"
      by blast
    have "\<forall>i < length hs. vs ! i = (case xs ! i of
                          Num r \<Rightarrow> r
                        | Sym s \<Rightarrow> if s = ''0'' then 0
                                   else if s = ''C'' then - sum_list (hs ! i) / 2
                                   else - sum_list (hs ! i))"
      using vs(3) resolve_x0_value by blast
    with vs(1,2) unfold False show ?thesis by (simp add: py_bind_def)
  qed
qed

theorem origin_resolution_witness:
  "BaseTensorMesh_init ''TENSOR'' (\<lambda>l :: real list. Inr l) [HArray [1, 3], HScalar 2]
       (Some [Sym ''C'', Sym ''c'']) = Inl Exception \<and>
   (\<exists>m. BaseTensorMesh_init ''TENSOR'' (\<lambda>l :: real list. Inr l) [HArray [1, 3], HScalar 2]
          (Some [Sym ''C'', Sym ''N'']) = Inr m \<and> self_x0 m ! 0 = - 2 \<and> self_x0 m ! 1 = - 1)"
proof -
  let ?mt = "\<lambda>l :: real list. Inr l :: py_error + real list"
  let ?h_in = "[HArray [1, 3], HScalar 2] :: real list h_spec list"
  let ?hs = "[[1, 3], [1 / 2, 1 / 2]] :: real list list"
  have n: "length ?h_in \<in> {1, 2, 3}" by simp
  have h: "init_h ?mt ?h_in = Inr ?hs"
    by (simp add: py_bind_def resolve_h_def py_int_def numeral_2_eq_2)
  note res = origin_resolution [OF n h, of "''TENSOR''", THEN conjunct2, rule_format]
  have bad: "\<exists>i < length ?hs. \<exists>s. [Sym ''C'', Sym ''c''] ! i = Sym s \<and> s \<notin> {''0'', ''C'', ''N''}"
    by (rule exI [of _ 1]) simp
  have good: "\<not> (\<exists>i < length ?hs. \<exists>s. [Sym ''C'', Sym ''N''] ! i = Sym s \<and> s \<notin> {''0'', ''C'', ''N''})"
  proof
    assume "\<exists>i < length ?hs. \<exists>s. [Sym ''C'', Sym ''N''] ! i = Sym s \<and> s \<notin> {''0'', ''C'', ''N''}"
    then obtain i s where i: "i < length ?hs" and s: "[Sym ''C'', Sym ''N''] ! i = Sym s"
      "s \<notin> {''0'', ''C'', ''N''}" by blast
    from i have "i = 0 \<or> i = 1" by (simp add: less_Suc_eq)
    with s show False by auto
  qed
  have "BaseTensorMesh_init ''TENSOR'' ?mt ?h_in (Some [Sym ''C'', Sym ''c'']) = Inl Exception"
    using res [of "[Sym ''C'', Sym ''c'']"] bad by (simp only: if_True length_Cons list.size)
  moreover from res [of "[Sym ''C'', Sym ''N'']"] good
  obtain m where m: "BaseTensorMesh_init ''TENSOR'' ?mt ?h_in (Some [Sym ''C'', Sym ''N'']) = Inr m"
    "\<forall>i < length ?hs. self_x0 m ! i =
        (case [Sym ''C'', Sym ''N''] ! i of Num r \<Rightarrow> r
         | Sym s \<Rightarrow> if s = ''0'' then 0 else if s = ''C'' then - sum_list (?hs ! i) / 2
                    else - sum_list (?hs ! i))"
    by (simp only: if_False length_Cons list.size) blast
  from m(2) [rule_format, of 0] have x0: "self_x0 m ! 0 = - 2" by simp
  from m(2) [rule_format, of 1] have x1: "self_x0 m ! 1 = - 1" by simp
  from m(1) x0 x1
  have "\<exists>m. BaseTensorMesh_init ''TENSOR'' ?mt ?h_in (Some [Sym ''C'', Sym ''N'']) = Inr m \<and>
          self_x0 m ! 0 = - 2 \<and> self_x0 m ! 1 = - 1" by blast
  ultimately show ?thesis by (rule conjI)
qed

section \<open>isInside\<close>





















section \<open>getInterpolationMat\<close>
















section \<open>The fast inner product\<close>


lemma sum_pick_left:
  assumes "i < (n::nat)"
  shows "(\<Sum>k < n. (if i = k then d i else 0) * b k) = d i * (b i :: real)"
proof -
  have "(\<Sum>k < n. (if i = k then d i else 0) * b k) = (\<Sum>k \<in> {..<n}. if k = i then d k * b k else 0)"
    by (rule sum.cong) auto
  also have "\<dots> = d i * b i" using assms by (simp add: sum.delta)
  finally show ?thesis .
qed




lemma matmul_sdiag_left:
  assumes "nrows B = length v"
  shows "\<exists>P. matmul (smul c (sdiag v)) B = Inr P \<and> nrows P = length v \<and> ncols P = ncols B \<and>
           (\<forall>i < length v. \<forall>j. entry P i j = c * v ! i * entry B i j)"
proof -
  let ?A = "smul c (sdiag v)"
  let ?P = "Matrix (nrows ?A) (ncols B) (\<lambda>i j. \<Sum>k < ncols ?A. entry ?A i k * entry B k j)"
  from assms have P: "matmul ?A B = Inr ?P" by (simp add: matmul_def smul_def sdiag_def)
  have "entry ?P i j = c * v ! i * entry B i j" if "i < length v" for i j
  proof -
    have "(\<Sum>k < length v. entry ?A i k * entry B k j)
        = (\<Sum>k < length v. (if i = k then c * v ! i else 0) * entry B k j)"
      using that by (intro sum.cong) (simp_all add: smul_def sdiag_def)
    also have "\<dots> = c * v ! i * entry B i j" by (rule sum_pick_left [OF that])
    finally show ?thesis by (simp add: smul_def sdiag_def)
  qed
  then show ?thesis using P by (auto simp: smul_def sdiag_def)
qed


lemma smul_one: "smul 1 A = A"
  by (cases A) (simp add: smul_def)







text \<open>
  C3. For a property that is not \<^verbatim>\<open>None\<close> and whose resolved size is neither
  \<open>nC\<close> nor \<open>nC * dim\<close>, the assembler returns \<^verbatim>\<open>None\<close> and raises
  nothing, whatever the averaging operators and flags; so does the derivative.
\<close>

theorem unsupported_size_not_applicable:
  assumes "length (resolved_property m (Some pr) invProp) \<noteq> nC m"
    and "length (resolved_property m (Some pr) invProp) \<noteq> nC m * dim m"
  shows "fastInnerProduct attrs m AvType (Some pr) invProp invMat = Inr None \<and>
         fastInnerProductDeriv attrs m AvType (Some pr) v = Inr None"
proof (cases pr)
  case (Scalar s)
  with assms(1) show ?thesis by (cases invProp) (simp_all add: resolved_property_def)
next
  case (Array a)
  with assms have len: "length a \<noteq> nC m" "length a \<noteq> nC m * dim m"
    by (cases invProp; simp add: resolved_property_def)+
  have "fastInnerProduct attrs m AvType (Some pr) invProp invMat = Inr None"
    using Array len
    by (cases invProp)
      (simp_all add: fastInnerProduct_def reciprocal_def isScalar_def py_bind_def
        assemble_resolved_def)
  moreover have "fastInnerProductDeriv attrs m AvType (Some pr) v = Inr None"
    using Array len by (simp add: fastInnerProductDeriv_def isScalar_def)
  ultimately show ?thesis by (rule conjI)
qed

theorem unsupported_size_not_applicable_witness:
  "fastInnerProduct (\<lambda>name. None)
     \<lparr>self_meshType = ''TENSOR'', self_h = [[1, 1], [2, 2]], self_x0 = [0, 0]\<rparr>
     ''F'' (Some (Array [1, 2, 3])) True False = Inr None \<and>
   fastInnerProductDeriv (\<lambda>name. None)
     \<lparr>self_meshType = ''TENSOR'', self_h = [[1, 1], [2, 2]], self_x0 = [0, 0]\<rparr>
     ''F'' (Some (Array [1, 2, 3])) (Some [1]) = Inr None"
proof -
  let ?m = "\<lparr>self_meshType = ''TENSOR'', self_h = [[1, 1], [2, 2]], self_x0 = [0, 0]\<rparr>"
  have a: "length (resolved_property ?m (Some (Array [1, 2, 3])) True) \<noteq> nC ?m"
    by (simp add: resolved_property_def nC_def vnC_def)
  have b: "length (resolved_property ?m (Some (Array [1, 2, 3])) True) \<noteq> nC ?m * dim ?m"
    by (simp add: resolved_property_def nC_def vnC_def dim_def)
  show ?thesis by (rule unsupported_size_not_applicable [OF a b])
qed

section \<open>The derivative of the fast inner product\<close>

lemma matmul_sdiag_left1:
  assumes "nrows B = length v"
  shows "\<exists>P. matmul (sdiag v) B = Inr P \<and> nrows P = length v \<and> ncols P = ncols B \<and>
           (\<forall>i < length v. \<forall>j. entry P i j = v ! i * entry B i j)"
  using matmul_sdiag_left [OF assms, of 1] by (simp add: smul_one)








end
